theory Spec2Isabelle
  imports Complex_Main "HOL-Library.Word" "HOL-Library.Sublist"
begin

section \<open>Text, values and exceptions\<close>

text \<open>
  A Python \<open>str\<close> is a sequence of Unicode code points. It is modelled as a list of
  natural numbers, one per code point, so that slicing, \<open>startswith\<close> and \<open>strip\<close> count
  what Python counts. \<open>str\<close> turns a literal into such a list.
\<close>

type_synonym pystr = "nat list"

definition str :: "string \<Rightarrow> pystr" where
  "str s = map of_char s"

text \<open>
  Exceptions are values. \<open>HTTPException\<close> carries status code, detail and headers as in
  \<open>main.py\<close>; \<open>RequestValidationError\<close> is what the framework raises when a request body
  fails the declared schema (answered with status 422); \<open>IntegrityError\<close> is the failure
  of a commit that breaks a \<open>unique=True\<close> column of \<open>models.py\<close>; \<open>JSONDecodeError\<close> is the
  only exception \<open>identify_bird\<close> catches; \<open>AttributeError\<close> is what a method call on
  \<open>None\<close> raises; \<open>UpstreamError\<close> stands for whatever the generative-AI client raises.
  An exception no handler catches is answered with status 500.
\<close>

datatype exn =
    HTTPException nat pystr "(pystr \<times> pystr) list"
  | RequestValidationError
  | IntegrityError
  | JSONDecodeError
  | AttributeError
  | UpstreamError pystr

fun status_code :: "exn \<Rightarrow> nat" where
  "status_code (HTTPException code detail headers) = code"
| "status_code RequestValidationError = 422"
| "status_code IntegrityError = 500"
| "status_code JSONDecodeError = 500"
| "status_code AttributeError = 500"
| "status_code (UpstreamError msg) = 500"

text \<open>
  The Python values \<open>json.loads\<close> can return. A \<open>dict\<close> is an association list in
  insertion order with distinct keys. A \<open>float\<close> is kept as the numeric token it was read
  from (Python rounds it to the nearest double), so no floating-point arithmetic enters
  the model.
\<close>

datatype pyval =
    PNone
  | PBool bool
  | PInt int
  | PFloat pystr
  | PStr pystr
  | PList "pyval list"
  | PDict "(pystr \<times> pyval) list"

section \<open>The standard library's JSON decoder\<close>

text \<open>
  \<open>identify_bird\<close> hands the cleaned reply to \<open>json.loads\<close>. The decoder is modelled after
  the default decoder of the standard library: whitespace is space, tab, line feed and
  carriage return; strings are read in strict mode (no raw control character, the eight
  short escapes, the \<open>u\<close> escape with four hexadecimal digits, surrogate pairs joined);
  a number is an optional minus sign, then \<open>0\<close> or a digit sequence without leading zero,
  then an optional fraction (a dot and digits) and an optional exponent; \<open>NaN\<close>,
  \<open>Infinity\<close> and \<open>-Infinity\<close> are accepted; a repeated key keeps its first position and its last value; anything left
  after the value is an error. Every failure of the decoder is a \<open>JSONDecodeError\<close>, whose
  message and position \<open>identify_bird\<close> never looks at. Each function takes the text from
  the current position on and returns the value with the text that follows it.
  The interpreter's resource limits (nesting depth, digits of an integer) are not part
  of the model.
\<close>

definition json_whitespace :: "nat \<Rightarrow> bool" where
  "json_whitespace c = (c = 32 \<or> c = 9 \<or> c = 10 \<or> c = 13)"

definition skip_whitespace :: "pystr \<Rightarrow> pystr" where
  "skip_whitespace s = dropWhile json_whitespace s"

definition is_digit :: "nat \<Rightarrow> bool" where
  "is_digit c = (48 \<le> c \<and> c \<le> 57)"

definition hex_value :: "nat \<Rightarrow> nat option" where
  "hex_value c =
     (if 48 \<le> c \<and> c \<le> 57 then Some (c - 48)
      else if 97 \<le> c \<and> c \<le> 102 then Some (c - 87)
      else if 65 \<le> c \<and> c \<le> 70 then Some (c - 55)
      else None)"

definition decode_uXXXX :: "pystr \<Rightarrow> nat option" where
  "decode_uXXXX s =
     (case s of
        a # b # c # d # rest \<Rightarrow>
          (case (hex_value a, hex_value b, hex_value c, hex_value d) of
             (Some x3, Some x2, Some x1, Some x0) \<Rightarrow> Some (((x3 * 16 + x2) * 16 + x1) * 16 + x0)
           | _ \<Rightarrow> None)
      | _ \<Rightarrow> None)"

definition BACKSLASH :: "nat \<Rightarrow> nat option" where
  "BACKSLASH esc =
     (if esc = 34 then Some 34
      else if esc = 92 then Some 92
      else if esc = 47 then Some 47
      else if esc = 98 then Some 8
      else if esc = 102 then Some 12
      else if esc = 110 then Some 10
      else if esc = 114 then Some 13
      else if esc = 116 then Some 9
      else None)"

definition append_char :: "nat \<Rightarrow> exn + pystr \<times> pystr \<Rightarrow> exn + pystr \<times> pystr" where
  "append_char ch r = (case r of Inl e \<Rightarrow> Inl e | Inr (chunks, end) \<Rightarrow> Inr (ch # chunks, end))"

fun scanstring :: "pystr \<Rightarrow> exn + pystr \<times> pystr" where
  "scanstring [] = Inl JSONDecodeError"
| "scanstring (c # cs) =
     (if c = 34 then Inr ([], cs)
      else if c = 92 then
        (case cs of
           [] \<Rightarrow> Inl JSONDecodeError
         | esc # cs' \<Rightarrow>
             if esc \<noteq> 117 then
               (case BACKSLASH esc of
                  None \<Rightarrow> Inl JSONDecodeError
                | Some ch \<Rightarrow> append_char ch (scanstring cs'))
             else
               (case decode_uXXXX cs' of
                  None \<Rightarrow> Inl JSONDecodeError
                | Some uni \<Rightarrow>
                    if 0xD800 \<le> uni \<and> uni \<le> 0xDBFF \<and> take 2 (drop 4 cs') = [92, 117] then
                      (case decode_uXXXX (drop 6 cs') of
                         None \<Rightarrow> Inl JSONDecodeError
                       | Some uni2 \<Rightarrow>
                           if 0xDC00 \<le> uni2 \<and> uni2 \<le> 0xDFFF
                           then append_char (0x10000 + ((uni - 0xD800) * 1024 + (uni2 - 0xDC00)))
                                  (scanstring (drop 10 cs'))
                           else append_char uni (scanstring (drop 4 cs')))
                    else append_char uni (scanstring (drop 4 cs'))))
      else if c < 32 then Inl JSONDecodeError
      else append_char c (scanstring cs))"

definition int_of_digits :: "pystr \<Rightarrow> int" where
  "int_of_digits ds = foldl (\<lambda>acc d. acc * 10 + (int d - 48)) 0 ds"

definition match_number :: "pystr \<Rightarrow> (pyval \<times> pystr) option" where
  "match_number s =
     (let negative = (take 1 s = [45]);
          s1 = (if negative then drop 1 s else s)
      in case s1 of
           [] \<Rightarrow> None
         | d # ds \<Rightarrow>
             if \<not> is_digit d then None
             else
               (let integer = (if d = 48 then [d] else d # takeWhile is_digit ds);
                    s2 = (if d = 48 then ds else dropWhile is_digit ds);
                    has_frac = (case s2 of p # q # r \<Rightarrow> p = 46 \<and> is_digit q | _ \<Rightarrow> False);
                    frac = (if has_frac then 46 # takeWhile is_digit (drop 1 s2) else []);
                    s3 = (if has_frac then dropWhile is_digit (drop 1 s2) else s2);
                    after_e = (case drop 1 s3 of
                                 x # r \<Rightarrow> if x = 45 \<or> x = 43 then r else x # r
                               | [] \<Rightarrow> []);
                    has_exp = ((take 1 s3 = [101] \<or> take 1 s3 = [69])
                               \<and> takeWhile is_digit after_e \<noteq> []);
                    exp = (if has_exp
                           then take (length s3 - length (dropWhile is_digit after_e)) s3
                           else []);
                    s4 = (if has_exp then dropWhile is_digit after_e else s3)
                in if frac = [] \<and> exp = []
                   then Some (PInt ((if negative then - 1 else 1) * int_of_digits integer), s4)
                   else Some (PFloat ((if negative then [45] else []) @ integer @ frac @ exp), s4)))"

definition dict_setitem ::
  "(pystr \<times> pyval) list \<Rightarrow> pystr \<Rightarrow> pyval \<Rightarrow> (pystr \<times> pyval) list" where
  "dict_setitem d k v =
     (if map_of d k = None then d @ [(k, v)]
      else map (\<lambda>(k', v'). if k' = k then (k', v) else (k', v')) d)"

function scan_once :: "pystr \<Rightarrow> exn + pyval \<times> pystr"
  and parse_array :: "pystr \<Rightarrow> pyval list \<Rightarrow> exn + pyval \<times> pystr"
  and parse_object :: "pystr \<Rightarrow> (pystr \<times> pyval) list \<Rightarrow> exn + pyval \<times> pystr"
where
  "scan_once s =
     (case s of
        [] \<Rightarrow> Inl JSONDecodeError
      | nextchar # s' \<Rightarrow>
          if nextchar = 34 then
            (case scanstring s' of
               Inl e \<Rightarrow> Inl e
             | Inr (v, end) \<Rightarrow> Inr (PStr v, end))
          else if nextchar = 123 then
            (case skip_whitespace s' of
               [] \<Rightarrow> Inl JSONDecodeError
             | c # cs \<Rightarrow> if c = 125 then Inr (PDict [], cs) else parse_object (c # cs) [])
          else if nextchar = 91 then
            (case skip_whitespace s' of
               [] \<Rightarrow> Inl JSONDecodeError
             | c # cs \<Rightarrow> if c = 93 then Inr (PList [], cs) else parse_array (c # cs) [])
          else if take 4 s = str ''null'' then Inr (PNone, drop 4 s)
          else if take 4 s = str ''true'' then Inr (PBool True, drop 4 s)
          else if take 5 s = str ''false'' then Inr (PBool False, drop 5 s)
          else if take 3 s = str ''NaN'' then Inr (PFloat (str ''NaN''), drop 3 s)
          else if take 8 s = str ''Infinity'' then Inr (PFloat (str ''Infinity''), drop 8 s)
          else if take 9 s = str ''-Infinity'' then Inr (PFloat (str ''-Infinity''), drop 9 s)
          else (case match_number s of
                  None \<Rightarrow> Inl JSONDecodeError
                | Some (v, end) \<Rightarrow> Inr (v, end)))"
| "parse_array s values =
     (case scan_once s of
        Inl e \<Rightarrow> Inl e
      | Inr (v, end) \<Rightarrow>
          if \<not> length end < length s then Inl JSONDecodeError
          else
            (case skip_whitespace end of
               [] \<Rightarrow> Inl JSONDecodeError
             | c # cs \<Rightarrow>
                 if c = 93 then Inr (PList (values @ [v]), cs)
                 else if c \<noteq> 44 then Inl JSONDecodeError
                 else parse_array (skip_whitespace cs) (values @ [v])))"
| "parse_object s pairs =
     (case s of
        [] \<Rightarrow> Inl JSONDecodeError
      | q # s1 \<Rightarrow>
          if q \<noteq> 34 then Inl JSONDecodeError
          else
            (case scanstring s1 of
               Inl e \<Rightarrow> Inl e
             | Inr (key, end1) \<Rightarrow>
                 (case skip_whitespace end1 of
                    [] \<Rightarrow> Inl JSONDecodeError
                  | c # end2 \<Rightarrow>
                      if c \<noteq> 58 then Inl JSONDecodeError
                      else if \<not> length end2 < length s1 then Inl JSONDecodeError
                      else
                        (case scan_once (skip_whitespace end2) of
                           Inl e \<Rightarrow> Inl e
                         | Inr (v, end3) \<Rightarrow>
                             if \<not> length end3 < length s then Inl JSONDecodeError
                             else
                               (case skip_whitespace end3 of
                                  [] \<Rightarrow> Inl JSONDecodeError
                                | d # ds \<Rightarrow>
                                    if d = 125 then Inr (PDict (dict_setitem pairs key v), ds)
                                    else if d \<noteq> 44 then Inl JSONDecodeError
                                    else parse_object (skip_whitespace ds)
                                           (dict_setitem pairs key v))))))"
  by pat_completeness auto
termination
proof (relation "measure (\<lambda>x. case x of
                             Inl s \<Rightarrow> 2 * length s
                           | Inr (Inl (s, values)) \<Rightarrow> 2 * length s + 1
                           | Inr (Inr (s, pairs)) \<Rightarrow> 2 * length s + 1)", goal_cases)
  case 1
  show ?case by simp
next
  case (2 s nextchar s' c cs)
  have "length (skip_whitespace s') \<le> length s'"
    by (simp add: skip_whitespace_def length_dropWhile_le)
  with 2 show ?case by simp
next
  case (3 s nextchar s' c cs)
  have "length (skip_whitespace s') \<le> length s'"
    by (simp add: skip_whitespace_def length_dropWhile_le)
  with 3 show ?case by simp
next
  case (4 s "values")
  show ?case by simp
next
  case (5 s "values" x v "end" c cs)
  have "length (skip_whitespace cs) \<le> length cs" "length (skip_whitespace end) \<le> length end"
    by (simp_all add: skip_whitespace_def length_dropWhile_le)
  with 5 show ?case by simp
next
  case (6 s pairs q s1 x key end1 c end2)
  have "length (skip_whitespace end2) \<le> length end2"
    by (simp add: skip_whitespace_def length_dropWhile_le)
  with 6 show ?case by simp
next
  case (7 s pairs q s1 x key end1 c end2 y v end3 d ds)
  have "length (skip_whitespace ds) \<le> length ds" "length (skip_whitespace end3) \<le> length end3"
    by (simp_all add: skip_whitespace_def length_dropWhile_le)
  with 7 show ?case by simp
qed

definition json_loads :: "pystr \<Rightarrow> exn + pyval" where
  "json_loads s =
     (if take 1 s = [0xFEFF] then Inl JSONDecodeError
      else case scan_once (skip_whitespace s) of
             Inl e \<Rightarrow> Inl e
           | Inr (obj, end) \<Rightarrow>
               if skip_whitespace end = [] then Inr obj else Inl JSONDecodeError)"

section \<open>The identification client (\<open>bird_identifier.py\<close>)\<close>

text \<open>
  \<open>str.strip()\<close> without argument removes the characters for which \<open>str.isspace\<close> holds,
  first from the left and then from the right.
\<close>

definition py_isspace :: "nat \<Rightarrow> bool" where
  "py_isspace c =
     ((9 \<le> c \<and> c \<le> 13) \<or> (28 \<le> c \<and> c \<le> 32) \<or> c = 133 \<or> c = 160 \<or> c = 5760
      \<or> (8192 \<le> c \<and> c \<le> 8202) \<or> c = 8232 \<or> c = 8233 \<or> c = 8239 \<or> c = 8287
      \<or> c = 12288)"

definition py_strip :: "pystr \<Rightarrow> pystr" where
  "py_strip s = rev (dropWhile py_isspace (rev (dropWhile py_isspace s)))"

definition startswith :: "pystr \<Rightarrow> pystr \<Rightarrow> bool" where
  "startswith s start = (take (length start) s = start)"

definition endswith :: "pystr \<Rightarrow> pystr \<Rightarrow> bool" where
  "endswith s ending = (length ending \<le> length s \<and> drop (length s - length ending) s = ending)"

fun join :: "pystr \<Rightarrow> pystr list \<Rightarrow> pystr" where
  "join sep [] = []"
| "join sep [x] = x"
| "join sep (x # y # ys) = x @ sep @ join sep (y # ys)"

definition WESLEYAN_FIELD_GUIDE_BIRDS :: "pystr list" where
  "WESLEYAN_FIELD_GUIDE_BIRDS =
     [str ''Northern Cardinal'',
      str ''American Robin'',
      str ''Blue Jay'',
      str ''House Sparrow'',
      str ''European Starling'',
      str ''American Crow'',
      str ''Mourning Dove'',
      str ''Red-tailed Hawk'',
      str ''American Goldfinch'',
      str ''Black-capped Chickadee'',
      str ''White-breasted Nuthatch'',
      str ''Downy Woodpecker'',
      str ''Carolina Wren'',
      str ''Eastern Bluebird'',
      str ''Song Sparrow'',
      str ''Dark-eyed Junco'']"

definition prompt :: pystr where
  "prompt =
     (let wesleyan_birds_list = join (str '', '') WESLEYAN_FIELD_GUIDE_BIRDS
      in join [10]
        [str ''You are an expert ornithologist for the Wesleyan Birder app. Analyze this bird image and provide:'',
         [],
         str ''1. **Common Name**: The bird's common English name'',
         str ''2. **Scientific Name**: The scientific name in \"Genus species\" format'',
         str ''3. **Wesleyan Fact**: A fact connecting this bird to Wesleyan University or Connecticut. If this bird is one of the 16 species in the Field Guide to the Birds of Wesleyan (''
          @ wesleyan_birds_list
          @ str ''), mention this. The Wesleyan Cardinal is the university mascot, so the Northern Cardinal is especially significant.'',
         [],
         str ''Respond in this exact JSON format:'',
         str ''{'',
         str ''    \"common_name\": \"Bird Common Name\",'',
         str ''    \"scientific_name\": \"Genus species\",'',
         str ''    \"wesleyan_fact\": \"A Wesleyan-specific fact about this bird\",'',
         str ''    \"confidence\": \"high/medium/low\",'',
         str ''    \"in_wesleyan_field_guide\": true/false'',
         str ''}'',
         [],
         str ''If you cannot identify the bird or the image doesn't contain a bird, respond with:'',
         str ''{'',
         str ''    \"common_name\": \"Unknown\",'',
         str ''    \"scientific_name\": \"Unknown\",'',
         str ''    \"wesleyan_fact\": \"Unable to identify the bird in this image. Try a clearer photo!\",'',
         str ''    \"confidence\": \"none\",'',
         str ''    \"in_wesleyan_field_guide\": false'',
         str ''}''])"

text \<open>
  The one outbound call: \<open>client.models.generate_content(model=..., contents=[Content(role=...,
  parts=[Part.from_bytes(data=..., mime_type=...), Part.from_text(text=...)])])\<close>.
\<close>

datatype part = from_bytes "8 word list" pystr | from_text pystr

record content =
  role :: pystr
  parts :: "part list"

record generate_content_call =
  model :: pystr
  contents :: "content list"

text \<open>Lines 80 to 86: the reply is stripped, then the three \<open>if\<close>s run one after another.\<close>

definition strip_code_fence :: "pystr \<Rightarrow> pystr" where
  "strip_code_fence text =
     (let response_text = py_strip text;
          response_text = (if startswith response_text (str ''```json'')
                           then drop 7 response_text else response_text);
          response_text = (if startswith response_text (str ''```'')
                           then drop 3 response_text else response_text);
          response_text = (if endswith response_text (str ''```'')
                           then take (length response_text - 3) response_text else response_text)
      in response_text)"

text \<open>Lines 92 to 98: the dictionary substituted when the reply is not JSON.\<close>

definition could_not_parse :: pyval where
  "could_not_parse =
     PDict [(str ''common_name'', PStr (str ''Unknown'')),
            (str ''scientific_name'', PStr (str ''Unknown'')),
            (str ''wesleyan_fact'',
               PStr (str ''Could not parse the identification result. Please try again.'')),
            (str ''confidence'', PStr (str ''none'')),
            (str ''in_wesleyan_field_guide'', PBool False)]"

text \<open>
  \<open>identify_bird\<close>. The client built by \<open>get_gemini_client\<close> is the parameter
  \<open>generate_content\<close>: it maps the call to \<open>response.text\<close>, which is a string or \<open>None\<close>
  (a response without text), or to the exception it raises, which nothing here catches.
  \<open>None.strip()\<close> raises \<open>AttributeError\<close>. \<open>generate_content_arguments\<close> is the argument list
  of lines 67 to 78. The second component of the result lists the calls made. \<open>base64_image\<close> is computed by the source and never used. Only
  \<open>JSONDecodeError\<close> is caught around \<open>json.loads\<close>.
\<close>

definition generate_content_arguments :: "8 word list \<Rightarrow> generate_content_call" where
  "generate_content_arguments image_data =
     \<lparr>model = str ''gemini-2.5-flash'',
      contents = [\<lparr>role = str ''user'',
                   parts = [from_bytes image_data (str ''image/jpeg''),
                            from_text prompt]\<rparr>]\<rparr>"

definition identify_bird ::
  "(generate_content_call \<Rightarrow> exn + pystr option) \<Rightarrow> 8 word list
     \<Rightarrow> (exn + pyval) \<times> generate_content_call list" where
  "identify_bird generate_content image_data =
     (let call = generate_content_arguments image_data
      in case generate_content call of
           Inl e \<Rightarrow> (Inl e, [call])
         | Inr None \<Rightarrow> (Inl AttributeError, [call])
         | Inr (Some text) \<Rightarrow>
             (case json_loads (py_strip (strip_code_fence text)) of
                Inr result \<Rightarrow> (Inr result, [call])
              | Inl e \<Rightarrow>
                  if e = JSONDecodeError then (Inr could_not_parse, [call])
                  else (Inl e, [call])))"

text \<open>
  \<open>schemas.py\<close>, \<open>BirdIdentificationResponse\<close>: four required strings and one required
  boolean. A value has the five fields when it is a dictionary that holds them with these
  types.
\<close>

definition is_str :: "pyval option \<Rightarrow> bool" where
  "is_str v = (case v of Some (PStr s) \<Rightarrow> True | _ \<Rightarrow> False)"

definition is_bool :: "pyval option \<Rightarrow> bool" where
  "is_bool v = (case v of Some (PBool b) \<Rightarrow> True | _ \<Rightarrow> False)"

definition has_five_fields :: "pyval \<Rightarrow> bool" where
  "has_five_fields v =
     (case v of
        PDict d \<Rightarrow>
          is_str (map_of d (str ''common_name'')) \<and>
          is_str (map_of d (str ''scientific_name'')) \<and>
          is_str (map_of d (str ''wesleyan_fact'')) \<and>
          is_str (map_of d (str ''confidence'')) \<and>
          is_bool (map_of d (str ''in_wesleyan_field_guide''))
      | _ \<Rightarrow> False)"

text \<open>
  \<open>main.py\<close>, \<open>identify_bird_endpoint\<close>: the declared content type is only tested for its
  prefix; the image bytes go to \<open>identify_bird\<close> without it. An upload that declares no
  content type has \<open>file.content_type = None\<close>, on which \<open>startswith\<close> raises. The constructor
  \<open>BirdIdentificationResponse(**result)\<close> belongs to the validation library and is a
  parameter.
\<close>

definition identify_bird_endpoint ::
  "(pyval \<Rightarrow> exn + 'r) \<Rightarrow> (generate_content_call \<Rightarrow> exn + pystr option)
     \<Rightarrow> pystr option \<Rightarrow> 8 word list \<Rightarrow> (exn + 'r) \<times> generate_content_call list" where
  "identify_bird_endpoint BirdIdentificationResponse generate_content file_content_type image_data =
     (case file_content_type of
        None \<Rightarrow> (Inl AttributeError, [])
      | Some content_type \<Rightarrow>
          if \<not> startswith content_type (str ''image/'')
          then (Inl (HTTPException 400 (str ''Please upload an image file'') []), [])
          else case identify_bird generate_content image_data of
                 (Inl e, calls) \<Rightarrow> (Inl e, calls)
               | (Inr result, calls) \<Rightarrow> (BirdIdentificationResponse result, calls))"

text \<open>
  Replies to test the client with. \<open>reply_with\<close> is a model that answers every call with the
  given text. \<open>json_value_start\<close> holds of the characters a JSON value can begin with: the
  double quote, the two opening brackets, the minus sign, a digit, and the first letters of
  \<open>true\<close>, \<open>false\<close>, \<open>null\<close>, \<open>NaN\<close> and \<open>Infinity\<close>. \<open>json_string\<close> writes a string as a JSON
  string token (quote and backslash escaped with a backslash, control characters as
  \<open>u\<close> escapes), and \<open>reply_text\<close> writes the five fields in the format the prompt asks for.
\<close>

definition reply_with :: "pystr \<Rightarrow> generate_content_call \<Rightarrow> exn + pystr option" where
  "reply_with text call = Inr (Some text)"

definition json_value_start :: "nat \<Rightarrow> bool" where
  "json_value_start c =
     (c = 34 \<or> c = 123 \<or> c = 91 \<or> c = 45 \<or> is_digit c
      \<or> c = 116 \<or> c = 102 \<or> c = 110 \<or> c = 78 \<or> c = 73)"

definition hex_digit :: "nat \<Rightarrow> nat" where
  "hex_digit n = (if n < 10 then 48 + n else 87 + n)"

definition escape_char :: "nat \<Rightarrow> pystr" where
  "escape_char c =
     (if c = 34 then [92, 34]
      else if c = 92 then [92, 92]
      else if c < 32 then [92, 117, 48, 48, hex_digit (c div 16), hex_digit (c mod 16)]
      else [c])"

definition json_string :: "pystr \<Rightarrow> pystr" where
  "json_string s = 34 # concat (map escape_char s) @ [34]"

definition reply_text :: "pystr \<Rightarrow> pystr \<Rightarrow> pystr \<Rightarrow> pystr \<Rightarrow> bool \<Rightarrow> pystr" where
  "reply_text common_name scientific_name wesleyan_fact confidence in_wesleyan_field_guide =
     str ''{\"common_name\": '' @ json_string common_name
     @ str '', \"scientific_name\": '' @ json_string scientific_name
     @ str '', \"wesleyan_fact\": '' @ json_string wesleyan_fact
     @ str '', \"confidence\": '' @ json_string confidence
     @ str '', \"in_wesleyan_field_guide\": ''
     @ (if in_wesleyan_field_guide then str ''true'' else str ''false'')
     @ str ''}''"

definition five_fields :: "pystr \<Rightarrow> pystr \<Rightarrow> pystr \<Rightarrow> pystr \<Rightarrow> bool \<Rightarrow> pyval" where
  "five_fields common_name scientific_name wesleyan_fact confidence in_wesleyan_field_guide =
     PDict [(str ''common_name'', PStr common_name),
            (str ''scientific_name'', PStr scientific_name),
            (str ''wesleyan_fact'', PStr wesleyan_fact),
            (str ''confidence'', PStr confidence),
            (str ''in_wesleyan_field_guide'', PBool in_wesleyan_field_guide)]"

section \<open>Stored records and request bodies\<close>

text \<open>\<open>models.py\<close>: the two tables. Float columns hold finite values, modelled as reals.\<close>

record User =
  u_id :: int
  u_username :: pystr
  u_email :: pystr
  u_hashed_password :: pystr
  u_orcid_id :: "pystr option"
  u_created_at :: nat

record Sighting =
  s_id :: int
  s_bird_name :: pystr
  s_scientific_name :: "pystr option"
  s_timestamp :: nat
  s_latitude :: "real option"
  s_longitude :: "real option"
  s_mansion_notes :: "pystr option"
  s_wesleyan_fact :: "pystr option"
  s_user_id :: int

text \<open>\<open>schemas.py\<close>: the validated request bodies the handlers receive.\<close>

record UserCreate =
  uc_username :: pystr
  uc_email :: pystr
  uc_password :: pystr
  uc_orcid_id :: "pystr option"

record UserUpdate =
  uu_email :: "pystr option"
  uu_orcid_id :: "pystr option"

record SightingCreate =
  sc_bird_name :: pystr
  sc_scientific_name :: "pystr option"
  sc_latitude :: "real option"
  sc_longitude :: "real option"
  sc_mansion_notes :: "pystr option"
  sc_wesleyan_fact :: "pystr option"

text \<open>
  A request body as it reaches validation: each field holds its value, or \<open>None\<close> where
  the body has \<open>null\<close> or lacks the field (decoding the body and coercing its types is the
  framework's). A body that fails its schema raises \<open>RequestValidationError\<close> before the
  handler runs.

  \<open>UserCreate\<close>: \<open>username\<close> with \<open>min_length=3\<close> and \<open>max_length=50\<close>, \<open>email\<close> an
  \<open>EmailStr\<close>, \<open>password\<close> with \<open>min_length=6\<close>, all three required. \<open>EmailStr\<close> is checked
  by the email validation library, a parameter here: it maps an address to its normalised
  form, or to \<open>None\<close> when it is no email address. \<open>UserUpdate\<close>: both fields optional,
  \<open>email\<close> an \<open>EmailStr\<close> when present.
\<close>

record user_create_body =
  cb_username :: "pystr option"
  cb_email :: "pystr option"
  cb_password :: "pystr option"
  cb_orcid_id :: "pystr option"

definition validate_UserCreate ::
  "(pystr \<Rightarrow> pystr option) \<Rightarrow> user_create_body \<Rightarrow> exn + UserCreate" where
  "validate_UserCreate validate_email body =
     (case (cb_username body, cb_email body, cb_password body) of
        (Some name, Some address, Some password) \<Rightarrow>
          if 3 \<le> length name \<and> length name \<le> 50 \<and> 6 \<le> length password
          then (case validate_email address of
                  None \<Rightarrow> Inl RequestValidationError
                | Some normalized \<Rightarrow>
                    Inr \<lparr>uc_username = name, uc_email = normalized, uc_password = password,
                         uc_orcid_id = cb_orcid_id body\<rparr>)
          else Inl RequestValidationError
      | _ \<Rightarrow> Inl RequestValidationError)"

record user_update_body =
  ub_email :: "pystr option"
  ub_orcid_id :: "pystr option"

definition validate_UserUpdate ::
  "(pystr \<Rightarrow> pystr option) \<Rightarrow> user_update_body \<Rightarrow> exn + UserUpdate" where
  "validate_UserUpdate validate_email body =
     (case ub_email body of
        None \<Rightarrow> Inr \<lparr>uu_email = None, uu_orcid_id = ub_orcid_id body\<rparr>
      | Some address \<Rightarrow>
          (case validate_email address of
             None \<Rightarrow> Inl RequestValidationError
           | Some normalized \<Rightarrow>
               Inr \<lparr>uu_email = Some normalized, uu_orcid_id = ub_orcid_id body\<rparr>))"

text \<open>
  \<open>SightingCreate\<close> requires \<open>bird_name\<close> and bounds the two coordinates with \<open>ge\<close> and
  \<open>le\<close>; the other fields are optional and unconstrained. A coordinate is a finite number,
  so the comparison with the integer bounds is the one of the reals.
\<close>

record sighting_body =
  b_bird_name :: "pystr option"
  b_scientific_name :: "pystr option"
  b_latitude :: "real option"
  b_longitude :: "real option"
  b_mansion_notes :: "pystr option"
  b_wesleyan_fact :: "pystr option"

definition ge_le :: "real \<Rightarrow> real \<Rightarrow> real option \<Rightarrow> bool" where
  "ge_le lo hi v = (case v of None \<Rightarrow> True | Some x \<Rightarrow> lo \<le> x \<and> x \<le> hi)"

definition validate_SightingCreate :: "sighting_body \<Rightarrow> exn + SightingCreate" where
  "validate_SightingCreate body =
     (case b_bird_name body of
        None \<Rightarrow> Inl RequestValidationError
      | Some name \<Rightarrow>
          if ge_le (- 90) 90 (b_latitude body) \<and> ge_le (- 180) 180 (b_longitude body)
          then Inr \<lparr>sc_bird_name = name,
                    sc_scientific_name = b_scientific_name body,
                    sc_latitude = b_latitude body,
                    sc_longitude = b_longitude body,
                    sc_mansion_notes = b_mansion_notes body,
                    sc_wesleyan_fact = b_wesleyan_fact body\<rparr>
          else Inl RequestValidationError)"

text \<open>
  Modelled from the spec: the persistence layer (\<open>app.database\<close>) is not among the
  sources. The spec describes it as two record types reached through one unit of work per
  request. The state is the two tables in insertion order, each with the counter its
  integer primary key is drawn from.
\<close>

record database =
  users :: "User list"
  sightings :: "Sighting list"
  users_id_seq :: int
  sightings_id_seq :: int

definition empty_database :: database where
  "empty_database = \<lparr>users = [], sightings = [], users_id_seq = 1, sightings_id_seq = 1\<rparr>"

section \<open>Authentication\<close>

text \<open>
  Modelled from the spec: \<open>app.auth\<close> is not among the sources. The spec: a signed, expiring
  bearer token carries the subject's username as its only claim; verification rejects with
  an authentication error if the signature is invalid, the token is expired, or the
  subject no longer resolves to an existing account. The text of the error is not given,
  so the detail is left empty. The two password functions stay parameters of the
  handlers that call them.
\<close>

record token =
  sub :: pystr
  exp :: nat
  signature_valid :: bool

definition create_access_token :: "pystr \<Rightarrow> nat \<Rightarrow> nat \<Rightarrow> token" where
  "create_access_token subject expires_minutes now =
     \<lparr>sub = subject, exp = now + expires_minutes * 60, signature_valid = True\<rparr>"

definition credentials_exception :: exn where
  "credentials_exception = HTTPException 401 [] [(str ''WWW-Authenticate'', str ''Bearer'')]"

definition get_current_user :: "nat \<Rightarrow> token option \<Rightarrow> database \<Rightarrow> exn + User" where
  "get_current_user now bearer db =
     (case bearer of
        None \<Rightarrow> Inl credentials_exception
      | Some t \<Rightarrow>
          if \<not> signature_valid t \<or> exp t \<le> now then Inl credentials_exception
          else (case find (\<lambda>u. u_username u = sub t) (users db) of
                  None \<Rightarrow> Inl credentials_exception
                | Some user \<Rightarrow> Inr user))"

text \<open>\<open>config.py\<close>: \<open>access_token_expire_minutes\<close>.\<close>

definition access_token_expire_minutes :: nat where
  "access_token_expire_minutes = 60 * 24 * 7"

section \<open>Handlers of \<open>main.py\<close>\<close>

text \<open>
  Each handler takes what the source function takes and returns either the exception it
  raises or its return value, paired with the new database state where it commits one.
  A raised exception leaves the state as it was: nothing is committed before a \<open>raise\<close>.
\<close>

definition root :: "(pystr \<times> pystr) list" where
  "root = [(str ''message'', str ''Welcome to Wesleyan Birder API''),
           (str ''tagline'', str ''Where Cardinals soar and citizen science takes flight!''),
           (str ''docs'', str ''/docs'')]"

text \<open>
  \<open>register\<close>: the query \<open>filter((username == ...) | (email == ...)).first()\<close> is \<open>find\<close>;
  a hit raises the 400. The password hash function of \<open>app.auth\<close> and the clock behind
  \<open>default=datetime.utcnow\<close> are parameters.
\<close>

definition register ::
  "(pystr \<Rightarrow> pystr) \<Rightarrow> nat \<Rightarrow> UserCreate \<Rightarrow> database \<Rightarrow> exn + User \<times> database" where
  "register get_password_hash now user db =
     (case find (\<lambda>u. u_username u = uc_username user \<or> u_email u = uc_email user) (users db) of
        Some existing_user \<Rightarrow>
          Inl (HTTPException 400 (str ''Username or email already registered'') [])
      | None \<Rightarrow>
          (let db_user = \<lparr>u_id = users_id_seq db,
                          u_username = uc_username user,
                          u_email = uc_email user,
                          u_hashed_password = get_password_hash (uc_password user),
                          u_orcid_id = uc_orcid_id user,
                          u_created_at = now\<rparr>
           in Inr (db_user, db\<lparr>users := users db @ [db_user],
                                users_id_seq := users_id_seq db + 1\<rparr>)))"

definition login ::
  "(pystr \<Rightarrow> pystr \<Rightarrow> bool) \<Rightarrow> nat \<Rightarrow> pystr \<Rightarrow> pystr \<Rightarrow> database \<Rightarrow> exn + token \<times> pystr" where
  "login verify_password now form_username form_password db =
     (case find (\<lambda>u. u_username u = form_username) (users db) of
        None \<Rightarrow>
          Inl (HTTPException 401 (str ''Incorrect username or password'')
                 [(str ''WWW-Authenticate'', str ''Bearer'')])
      | Some user \<Rightarrow>
          if \<not> verify_password form_password (u_hashed_password user)
          then Inl (HTTPException 401 (str ''Incorrect username or password'')
                      [(str ''WWW-Authenticate'', str ''Bearer'')])
          else Inr (create_access_token (u_username user) access_token_expire_minutes now,
                    str ''bearer''))"

definition get_current_user_profile :: "User \<Rightarrow> User" where
  "get_current_user_profile current_user = current_user"

text \<open>
  \<open>update_user_profile\<close>: \<open>if user_update.email:\<close> is Python truthiness (neither \<open>None\<close> nor
  empty); \<open>if user_update.orcid_id is not None:\<close> lets the empty string through.
  \<open>assign_profile\<close> is the two conditional assignments. The commit writes the assigned
  columns of the row with the caller's id and fails when an email that differs from the
  caller's is held by another row (\<open>unique=True\<close>).
\<close>

definition assign_profile :: "UserUpdate \<Rightarrow> User \<Rightarrow> User" where
  "assign_profile user_update u =
     (let u1 = (case uu_email user_update of
                  None \<Rightarrow> u
                | Some e \<Rightarrow> if e \<noteq> [] then u\<lparr>u_email := e\<rparr> else u);
          u2 = (case uu_orcid_id user_update of
                  None \<Rightarrow> u1
                | Some oid \<Rightarrow> u1\<lparr>u_orcid_id := Some oid\<rparr>)
      in u2)"

definition update_user_profile ::
  "UserUpdate \<Rightarrow> User \<Rightarrow> database \<Rightarrow> exn + User \<times> database" where
  "update_user_profile user_update current_user db =
     (let updated = assign_profile user_update current_user
      in if u_email updated \<noteq> u_email current_user \<and>
            find (\<lambda>u. u_id u \<noteq> u_id current_user \<and> u_email u = u_email updated) (users db)
              \<noteq> None
         then Inl IntegrityError
         else Inr (updated,
                   db\<lparr>users := map (\<lambda>u. if u_id u = u_id current_user
                                           then assign_profile user_update u else u)
                                      (users db)\<rparr>))"

definition create_sighting ::
  "nat \<Rightarrow> SightingCreate \<Rightarrow> User \<Rightarrow> database \<Rightarrow> exn + Sighting \<times> database" where
  "create_sighting now sighting current_user db =
     (let db_sighting = \<lparr>s_id = sightings_id_seq db,
                         s_bird_name = sc_bird_name sighting,
                         s_scientific_name = sc_scientific_name sighting,
                         s_timestamp = now,
                         s_latitude = sc_latitude sighting,
                         s_longitude = sc_longitude sighting,
                         s_mansion_notes = sc_mansion_notes sighting,
                         s_wesleyan_fact = sc_wesleyan_fact sighting,
                         s_user_id = u_id current_user\<rparr>
      in Inr (db_sighting, db\<lparr>sightings := sightings db @ [db_sighting],
                               sightings_id_seq := sightings_id_seq db + 1\<rparr>))"

definition get_sightings :: "User \<Rightarrow> database \<Rightarrow> nat \<Rightarrow> nat \<Rightarrow> Sighting list" where
  "get_sightings current_user db skip limit =
     take limit (drop skip (filter (\<lambda>s. s_user_id s = u_id current_user) (sightings db)))"

definition get_sighting :: "int \<Rightarrow> User \<Rightarrow> database \<Rightarrow> exn + Sighting" where
  "get_sighting sighting_id current_user db =
     (case find (\<lambda>s. s_id s = sighting_id \<and> s_user_id s = u_id current_user) (sightings db) of
        None \<Rightarrow> Inl (HTTPException 404 (str ''Sighting not found in your Life List'') [])
      | Some sighting \<Rightarrow> Inr sighting)"

definition delete_sighting :: "int \<Rightarrow> User \<Rightarrow> database \<Rightarrow> exn + pystr \<times> database" where
  "delete_sighting sighting_id current_user db =
     (case find (\<lambda>s. s_id s = sighting_id \<and> s_user_id s = u_id current_user) (sightings db) of
        None \<Rightarrow> Inl (HTTPException 404 (str ''Sighting not found in your Life List'') [])
      | Some sighting \<Rightarrow>
          Inr (str ''Sighting removed from your Life List'',
               db\<lparr>sightings := filter (\<lambda>s. s_id s \<noteq> s_id sighting) (sightings db)\<rparr>))"

section \<open>The HTTP surface\<close>

text \<open>
  What the handlers depend on and the sources do not hold: the two password functions of
  \<open>app.auth\<close>, the email validation behind \<open>EmailStr\<close>, the external model (whose reply
  may change with time) and the response constructor of the validation library.
\<close>

record 'r environment =
  get_password_hash :: "pystr \<Rightarrow> pystr"
  verify_password :: "pystr \<Rightarrow> pystr \<Rightarrow> bool"
  validate_email :: "pystr \<Rightarrow> pystr option"
  generate_content :: "nat \<Rightarrow> generate_content_call \<Rightarrow> exn + pystr option"
  BirdIdentificationResponse :: "pyval \<Rightarrow> exn + 'r"

text \<open>
  One constructor per route of \<open>main.py\<close>. A request carries the bearer token of its
  header, if any, and its body as it reaches validation. The upload of POST /identify
  carries its declared content type, if any, and its bytes. The login form carries its
  two required fields. \<open>skip\<close> and \<open>limit\<close> are taken non-negative.
\<close>

datatype request =
    GET_root
  | POST_auth_register user_create_body
  | POST_auth_login pystr pystr
  | GET_users_me "token option"
  | PUT_users_me "token option" user_update_body
  | POST_identify "token option" "pystr option" "8 word list"
  | POST_sightings "token option" sighting_body
  | GET_sightings "token option" nat nat
  | GET_sighting "token option" int
  | DELETE_sighting "token option" int

datatype 'r response =
    Banner "(pystr \<times> pystr) list"
  | Account User
  | Bearer token pystr
  | Identification 'r
  | OneSighting Sighting
  | ManySightings "Sighting list"
  | Message pystr
  | Failure exn

text \<open>
  \<open>api\<close> serves one request at time \<open>now\<close>: it resolves \<open>Depends(get_current_user)\<close>,
  then validates the body against the schema the handler declares, then calls the
  handler, and answers with the response, the database state after the request and the
  calls made to the external model. An exception answers with \<open>Failure\<close> and keeps the
  state.
\<close>

fun api ::
  "'r environment \<Rightarrow> nat \<Rightarrow> database \<Rightarrow> request
     \<Rightarrow> 'r response \<times> database \<times> generate_content_call list" where
  "api env now db GET_root = (Banner root, db, [])"
| "api env now db (POST_auth_register body) =
     (case validate_UserCreate (validate_email env) body of
        Inl e \<Rightarrow> (Failure e, db, [])
      | Inr user \<Rightarrow>
          (case register (get_password_hash env) now user db of
             Inl e \<Rightarrow> (Failure e, db, [])
           | Inr (db_user, db') \<Rightarrow> (Account db_user, db', [])))"
| "api env now db (POST_auth_login form_username form_password) =
     (case login (verify_password env) now form_username form_password db of
        Inl e \<Rightarrow> (Failure e, db, [])
      | Inr (access_token, token_type) \<Rightarrow> (Bearer access_token token_type, db, []))"
| "api env now db (GET_users_me bearer) =
     (case get_current_user now bearer db of
        Inl e \<Rightarrow> (Failure e, db, [])
      | Inr current_user \<Rightarrow> (Account (get_current_user_profile current_user), db, []))"
| "api env now db (PUT_users_me bearer body) =
     (case get_current_user now bearer db of
        Inl e \<Rightarrow> (Failure e, db, [])
      | Inr current_user \<Rightarrow>
          (case validate_UserUpdate (validate_email env) body of
             Inl e \<Rightarrow> (Failure e, db, [])
           | Inr user_update \<Rightarrow>
               (case update_user_profile user_update current_user db of
                  Inl e \<Rightarrow> (Failure e, db, [])
                | Inr (user, db') \<Rightarrow> (Account user, db', []))))"
| "api env now db (POST_identify bearer content_type image_data) =
     (case get_current_user now bearer db of
        Inl e \<Rightarrow> (Failure e, db, [])
      | Inr current_user \<Rightarrow>
          (case identify_bird_endpoint (BirdIdentificationResponse env)
                  (generate_content env now) content_type image_data of
             (Inl e, calls) \<Rightarrow> (Failure e, db, calls)
           | (Inr result, calls) \<Rightarrow> (Identification result, db, calls)))"
| "api env now db (POST_sightings bearer body) =
     (case get_current_user now bearer db of
        Inl e \<Rightarrow> (Failure e, db, [])
      | Inr current_user \<Rightarrow>
          (case validate_SightingCreate body of
             Inl e \<Rightarrow> (Failure e, db, [])
           | Inr sighting \<Rightarrow>
               (case create_sighting now sighting current_user db of
                  Inl e \<Rightarrow> (Failure e, db, [])
                | Inr (db_sighting, db') \<Rightarrow> (OneSighting db_sighting, db', []))))"
| "api env now db (GET_sightings bearer skip limit) =
     (case get_current_user now bearer db of
        Inl e \<Rightarrow> (Failure e, db, [])
      | Inr current_user \<Rightarrow> (ManySightings (get_sightings current_user db skip limit), db, []))"
| "api env now db (GET_sighting bearer sighting_id) =
     (case get_current_user now bearer db of
        Inl e \<Rightarrow> (Failure e, db, [])
      | Inr current_user \<Rightarrow>
          (case get_sighting sighting_id current_user db of
             Inl e \<Rightarrow> (Failure e, db, [])
           | Inr sighting \<Rightarrow> (OneSighting sighting, db, [])))"
| "api env now db (DELETE_sighting bearer sighting_id) =
     (case get_current_user now bearer db of
        Inl e \<Rightarrow> (Failure e, db, [])
      | Inr current_user \<Rightarrow>
          (case delete_sighting sighting_id current_user db of
             Inl e \<Rightarrow> (Failure e, db, [])
           | Inr (message, db') \<Rightarrow> (Message message, db', [])))"

definition state_after :: "'r environment \<Rightarrow> nat \<Rightarrow> database \<Rightarrow> request \<Rightarrow> database" where
  "state_after env now db req = fst (snd (api env now db req))"

text \<open>A sequence of requests, each with the time it is served at.\<close>

fun run :: "'r environment \<Rightarrow> database \<Rightarrow> (nat \<times> request) list \<Rightarrow> database" where
  "run env db [] = db"
| "run env db ((now, req) # rest) = run env (state_after env now db req) rest"

section \<open>What an account keeps\<close>

text \<open>
  The columns of an account that no request may change, and the relation between two
  states in which every account of the first is still there in the second, at its place,
  with these columns unchanged and with its \<open>orcid_id\<close> still set if it was set.
\<close>

definition account_frame :: "User \<Rightarrow> int \<times> pystr \<times> pystr \<times> nat" where
  "account_frame u = (u_id u, u_username u, u_hashed_password u, u_created_at u)"

definition account_kept :: "User \<Rightarrow> User \<Rightarrow> bool" where
  "account_kept u u' =
     (account_frame u' = account_frame u \<and> (u_orcid_id u = None \<or> u_orcid_id u' \<noteq> None))"

definition accounts_kept :: "database \<Rightarrow> database \<Rightarrow> bool" where
  "accounts_kept db db' =
     (length (users db) \<le> length (users db') \<and>
      list_all2 account_kept (users db) (take (length (users db)) (users db')))"

text \<open>
  The primary key of the sightings table: the ids are distinct and below the counter the
  next id is drawn from.
\<close>

definition sighting_keys_ok :: "database \<Rightarrow> bool" where
  "sighting_keys_ok db =
     (distinct (map s_id (sightings db)) \<and> list_all (\<lambda>s. s_id s < sightings_id_seq db) (sightings db))"

section \<open>Example data\<close>

text \<open>
  A concrete environment and a database with two accounts and one sighting, owned by the
  first account, on which the theorems are instantiated. The bearer token is the second
  account's.
\<close>

definition example_environment :: "pyval environment" where
  "example_environment =
     \<lparr>get_password_hash = (\<lambda>password. 35 # password),
      verify_password = (\<lambda>password hashed. hashed = 35 # password),
      validate_email = (\<lambda>address. if 64 \<in> set address then Some address else None),
      generate_content = (\<lambda>now call. Inr (Some (str ''{}''))),
      BirdIdentificationResponse = (\<lambda>result. Inr result)\<rparr>"

definition example_user :: User where
  "example_user =
     \<lparr>u_id = 1, u_username = str ''ada'', u_email = str ''ada@wesleyan.edu'',
      u_hashed_password = str ''#secret1'', u_orcid_id = Some (str ''0000-0002-1825-0097''),
      u_created_at = 100\<rparr>"

definition other_user :: User where
  "other_user =
     \<lparr>u_id = 2, u_username = str ''bob'', u_email = str ''bob@wesleyan.edu'',
      u_hashed_password = str ''#secret2'', u_orcid_id = None, u_created_at = 150\<rparr>"

definition example_sighting :: Sighting where
  "example_sighting =
     \<lparr>s_id = 1, s_bird_name = str ''Blue Jay'', s_scientific_name = Some (str ''Cyanocitta cristata''),
      s_timestamp = 160, s_latitude = Some 41.55, s_longitude = Some (- 72.65),
      s_mansion_notes = None, s_wesleyan_fact = None, s_user_id = 1\<rparr>"

definition example_database :: database where
  "example_database =
     \<lparr>users = [example_user, other_user], sightings = [example_sighting],
      users_id_seq = 3, sightings_id_seq = 2\<rparr>"

definition other_bearer :: "token option" where
  "other_bearer = Some \<lparr>sub = str ''bob'', exp = 1000, signature_valid = True\<rparr>"

definition example_bearer :: "token option" where
  "example_bearer = Some \<lparr>sub = str ''ada'', exp = 1000, signature_valid = True\<rparr>"


definition example_update :: user_update_body where
  "example_update = \<lparr>ub_email = Some (str ''ada@conncoll.edu''), ub_orcid_id = None\<rparr>"

definition example_requests :: "(nat \<times> request) list" where
  "example_requests =
     [(200, PUT_users_me example_bearer example_update),
      (210, POST_auth_register
              \<lparr>cb_username = Some (str ''carl''), cb_email = Some (str ''carl@wesleyan.edu''),
               cb_password = Some (str ''secret3''), cb_orcid_id = None\<rparr>),
      (220, PUT_users_me example_bearer \<lparr>ub_email = None, ub_orcid_id = Some []\<rparr>),
      (230, DELETE_sighting example_bearer 1)]"

section \<open>Registration\<close>

lemma find_Some_ex: "\<exists>x \<in> set xs. P x \<Longrightarrow> \<exists>y. find P xs = Some y"
  by (cases "find P xs") (auto simp: find_None_iff)

lemma validate_UserCreate_error:
  "validate_UserCreate v body = Inl e \<Longrightarrow> e = RequestValidationError"
  by (auto simp: validate_UserCreate_def split: option.splits if_splits prod.splits)

text \<open>
  C6 (amended). POST /auth/register answers 400 to every registration that passes the
  \<open>UserCreate\<close> schema and whose username equals an existing account's username or whose
  (normalised) email equals an existing account's email, whatever the other field is. A
  registration that fails the schema is answered with the validation error (status 422)
  whether or not it names an existing account. In both cases the database is left as it
  was: no account is created.
\<close>

theorem register_duplicate_rejected:
  assumes "existing \<in> set (users db)"
  shows "(validate_UserCreate (validate_email env) body = Inr user
            \<and> (u_username existing = uc_username user \<or> u_email existing = uc_email user)
          \<longrightarrow> api env now db (POST_auth_register body)
                = (Failure (HTTPException 400 (str ''Username or email already registered'') []),
                   db, []))
         \<and> (validate_UserCreate (validate_email env) body = Inl e
          \<longrightarrow> e = RequestValidationError
              \<and> api env now db (POST_auth_register body) = (Failure RequestValidationError, db, []))"
proof (intro conjI impI)
  assume a: "validate_UserCreate (validate_email env) body = Inr user
            \<and> (u_username existing = uc_username user \<or> u_email existing = uc_email user)"
  let ?P = "\<lambda>u. u_username u = uc_username user \<or> u_email u = uc_email user"
  from assms a have "\<exists>u \<in> set (users db). ?P u" by blast
  then have "\<exists>y. find ?P (users db) = Some y" by (rule find_Some_ex)
  then obtain hit where hit: "find ?P (users db) = Some hit" ..
  then have "register (get_password_hash env) now user db
      = Inl (HTTPException 400 (str ''Username or email already registered'') [])"
    by (simp add: register_def)
  with a show "api env now db (POST_auth_register body)
                = (Failure (HTTPException 400 (str ''Username or email already registered'') []),
                   db, [])"
    by simp
next
  assume b: "validate_UserCreate (validate_email env) body = Inl e"
  then show "e = RequestValidationError" by (rule validate_UserCreate_error)
  with b show "api env now db (POST_auth_register body) = (Failure RequestValidationError, db, [])"
    by simp
qed

lemmas example_defs = example_environment_def example_database_def example_user_def
  other_user_def example_sighting_def other_bearer_def example_bearer_def

theorem register_duplicate_rejected_witness:
  "api example_environment 200 example_database
     (POST_auth_register \<lparr>cb_username = Some (str ''ada''), cb_email = Some (str ''other@wesleyan.edu''),
                           cb_password = Some (str ''secret2''), cb_orcid_id = None\<rparr>)
     = (Failure (HTTPException 400 (str ''Username or email already registered'') []),
        example_database, [])
   \<and> api example_environment 200 example_database
     (POST_auth_register \<lparr>cb_username = Some (str ''bob''), cb_email = Some (str ''ada@wesleyan.edu''),
                           cb_password = Some (str ''secret2''), cb_orcid_id = None\<rparr>)
     = (Failure (HTTPException 400 (str ''Username or email already registered'') []),
        example_database, [])
   \<and> api example_environment 200 example_database
     (POST_auth_register \<lparr>cb_username = Some (str ''bob''), cb_email = Some (str ''not an address''),
                           cb_password = Some (str ''secret2''), cb_orcid_id = None\<rparr>)
     = (Failure RequestValidationError, example_database, [])"
proof -
  have m: "example_user \<in> set (users example_database)"
    by (simp add: example_database_def)
  have v1: "validate_UserCreate (validate_email example_environment)
              \<lparr>cb_username = Some (str ''ada''), cb_email = Some (str ''other@wesleyan.edu''),
               cb_password = Some (str ''secret2''), cb_orcid_id = None\<rparr>
            = Inr \<lparr>uc_username = str ''ada'', uc_email = str ''other@wesleyan.edu'',
                   uc_password = str ''secret2'', uc_orcid_id = None\<rparr>"
    by (simp add: validate_UserCreate_def example_environment_def str_def)
  have v2: "validate_UserCreate (validate_email example_environment)
              \<lparr>cb_username = Some (str ''bob''), cb_email = Some (str ''ada@wesleyan.edu''),
               cb_password = Some (str ''secret2''), cb_orcid_id = None\<rparr>
            = Inr \<lparr>uc_username = str ''bob'', uc_email = str ''ada@wesleyan.edu'',
                   uc_password = str ''secret2'', uc_orcid_id = None\<rparr>"
    by (simp add: validate_UserCreate_def example_environment_def str_def)
  have v3: "validate_UserCreate (validate_email example_environment)
              \<lparr>cb_username = Some (str ''bob''), cb_email = Some (str ''not an address''),
               cb_password = Some (str ''secret2''), cb_orcid_id = None\<rparr>
            = Inl RequestValidationError"
    by (simp add: validate_UserCreate_def example_environment_def str_def)
  have d1: "u_username example_user = str ''ada''" and d2: "u_email example_user = str ''ada@wesleyan.edu''"
    by (simp_all add: example_user_def)
  show ?thesis
    using register_duplicate_rejected [OF m, of example_environment _ _ 200, THEN conjunct1, rule_format, OF conjI [OF v1]]
          register_duplicate_rejected [OF m, of example_environment _ _ 200, THEN conjunct1, rule_format, OF conjI [OF v2]]
          register_duplicate_rejected [OF m, of example_environment _ _ 200, THEN conjunct2, rule_format, OF v3]
          d1 d2
    by simp
qed

text \<open>
  The claim as stated, 400 for any registration with a taken username, fails for a body
  that the schema rejects: the username \<open>ada\<close> is taken, the password has three
  characters, and the answer is the validation error, whose status is 422.
\<close>

theorem register_invalid_duplicate_counterexample:
  "example_user \<in> set (users example_database)
   \<and> u_username example_user = str ''ada''
   \<and> api example_environment 200 example_database
       (POST_auth_register \<lparr>cb_username = Some (str ''ada''), cb_email = Some (str ''other@wesleyan.edu''),
                             cb_password = Some (str ''abc''), cb_orcid_id = None\<rparr>)
     = (Failure RequestValidationError, example_database, [])
   \<and> status_code RequestValidationError \<noteq> 400"
  by (simp add: example_defs validate_UserCreate_def str_def)

section \<open>Sightings of another account\<close>

text \<open>The primary key holds in every state the API reaches from the empty database.\<close>

lemma create_sighting_keys:
  assumes "sighting_keys_ok db" "create_sighting now sighting u db = Inr (created, db')"
  shows "sighting_keys_ok db'"
proof -
  have lt: "\<And>s. s \<in> set (sightings db) \<Longrightarrow> s_id s < sightings_id_seq db"
    using assms(1) by (simp add: sighting_keys_ok_def list_all_iff)
  then have fresh: "sightings_id_seq db \<notin> s_id ` set (sightings db)" by fastforce
  have lt': "\<And>s. s \<in> set (sightings db) \<Longrightarrow> s_id s < sightings_id_seq db + 1"
    using lt by fastforce
  from assms fresh lt' show ?thesis
    by (auto simp: sighting_keys_ok_def create_sighting_def Let_def list_all_iff)
qed

lemma delete_sighting_keys:
  assumes "sighting_keys_ok db" "delete_sighting sid u db = Inr (message, db')"
  shows "sighting_keys_ok db'"
  using assms
  by (auto simp: sighting_keys_ok_def delete_sighting_def list_all_iff distinct_map_filter
      split: option.splits)

lemma register_sightings:
  "register h now user db = Inr (u, db') \<Longrightarrow>
     sightings db' = sightings db \<and> sightings_id_seq db' = sightings_id_seq db"
  by (auto simp: register_def Let_def split: option.splits)

lemma update_user_profile_sightings:
  "update_user_profile upd cur db = Inr (u, db') \<Longrightarrow>
     sightings db' = sightings db \<and> sightings_id_seq db' = sightings_id_seq db"
  by (auto simp: update_user_profile_def Let_def split: if_splits)

lemma sighting_keys_ok_api:
  assumes "sighting_keys_ok db"
  shows "sighting_keys_ok (state_after env now db req)"
proof (cases req)
  case (POST_sightings bearer body)
  with assms show ?thesis
    by (auto simp: state_after_def split: sum.splits dest: create_sighting_keys)
next
  case (DELETE_sighting bearer sid)
  with assms show ?thesis
    by (auto simp: state_after_def split: sum.splits dest: delete_sighting_keys)
next
  case (POST_auth_register body)
  with assms show ?thesis
    by (auto simp: state_after_def sighting_keys_ok_def split: sum.splits
        dest!: register_sightings)
next
  case (PUT_users_me bearer body)
  with assms show ?thesis
    by (auto simp: state_after_def sighting_keys_ok_def split: sum.splits
        dest!: update_user_profile_sightings)
next
  case (POST_identify bearer ct img)
  with assms show ?thesis
    by (auto simp: state_after_def split: sum.splits prod.splits)
qed (use assms in \<open>auto simp: state_after_def split: sum.splits prod.splits\<close>)

lemma sighting_keys_ok_run:
  "sighting_keys_ok db \<Longrightarrow> sighting_keys_ok (run env db reqs)"
  by (induction reqs arbitrary: db) (auto simp: sighting_keys_ok_api)

lemma reachable_sighting_keys: "distinct (map s_id (sightings (run env empty_database reqs)))"
proof -
  have "sighting_keys_ok empty_database"
    by (simp add: sighting_keys_ok_def empty_database_def)
  then have "sighting_keys_ok (run env empty_database reqs)" by (rule sighting_keys_ok_run)
  then show ?thesis by (simp add: sighting_keys_ok_def)
qed

lemma find_None_other_owner:
  assumes "sighting \<in> set (sightings db)" "s_user_id sighting \<noteq> uid"
    and "distinct (map s_id (sightings db))"
  shows "find (\<lambda>s. s_id s = s_id sighting \<and> s_user_id s = uid) (sightings db) = None"
proof -
  have "\<And>x. x \<in> set (sightings db) \<Longrightarrow> s_id x = s_id sighting \<Longrightarrow> x = sighting"
    using assms(1,3) by (meson distinct_map inj_onD)
  with assms(2) show ?thesis by (auto simp: find_None_iff)
qed

lemma find_None_absent:
  assumes "absent \<notin> s_id ` set (sightings db)"
  shows "find (\<lambda>s. s_id s = absent \<and> s_user_id s = uid) (sightings db) = None"
  using assms by (auto simp: find_None_iff)

text \<open>
  C3. Let a sighting be owned by account A and let B be another account, authenticated by
  its bearer token, in a database whose sighting ids are distinct (the primary key). Then
  GET /sightings/{id} and DELETE /sightings/{id} by B on that sighting's id both answer
  404 with the detail of a missing sighting, which is exactly the answer for an id that no
  sighting has, and after the DELETE the sighting is still in the table.
\<close>

theorem cross_account_not_found:
  assumes "sighting \<in> set (sightings db)"
    and "s_user_id sighting = u_id A"
    and "u_id B \<noteq> u_id A"
    and "distinct (map s_id (sightings db))"
    and "absent \<notin> s_id ` set (sightings db)"
    and "get_current_user now bearer db = Inr B"
  shows "get_sighting (s_id sighting) B db
           = Inl (HTTPException 404 (str ''Sighting not found in your Life List'') [])
       \<and> delete_sighting (s_id sighting) B db
           = Inl (HTTPException 404 (str ''Sighting not found in your Life List'') [])
       \<and> api env now db (GET_sighting bearer (s_id sighting))
           = (Failure (HTTPException 404 (str ''Sighting not found in your Life List'') []), db, [])
       \<and> api env now db (GET_sighting bearer absent)
           = api env now db (GET_sighting bearer (s_id sighting))
       \<and> api env now db (DELETE_sighting bearer (s_id sighting))
           = (Failure (HTTPException 404 (str ''Sighting not found in your Life List'') []), db, [])
       \<and> api env now db (DELETE_sighting bearer absent)
           = api env now db (DELETE_sighting bearer (s_id sighting))
       \<and> sighting \<in> set (sightings (state_after env now db (DELETE_sighting bearer (s_id sighting))))"
proof -
  have other: "s_user_id sighting \<noteq> u_id B" using assms(2,3) by simp
  have f1: "find (\<lambda>s. s_id s = s_id sighting \<and> s_user_id s = u_id B) (sightings db) = None"
    by (rule find_None_other_owner [OF assms(1) other assms(4)])
  have f2: "find (\<lambda>s. s_id s = absent \<and> s_user_id s = u_id B) (sightings db) = None"
    by (rule find_None_absent [OF assms(5)])
  show ?thesis
    using f1 f2 assms(1,6) by (simp add: get_sighting_def delete_sighting_def state_after_def)
qed

theorem cross_account_not_found_witness:
  "api example_environment 200 example_database (GET_sighting other_bearer 1)
     = (Failure (HTTPException 404 (str ''Sighting not found in your Life List'') []),
        example_database, [])
   \<and> api example_environment 200 example_database (GET_sighting other_bearer 7)
     = api example_environment 200 example_database (GET_sighting other_bearer 1)
   \<and> api example_environment 200 example_database (DELETE_sighting other_bearer 1)
     = (Failure (HTTPException 404 (str ''Sighting not found in your Life List'') []),
        example_database, [])
   \<and> example_sighting \<in> set (sightings (state_after example_environment 200 example_database
                                           (DELETE_sighting other_bearer 1)))"
proof -
  have 1: "example_sighting \<in> set (sightings example_database)"
    by (simp add: example_database_def)
  have 2: "s_user_id example_sighting = u_id example_user"
    by (simp add: example_sighting_def example_user_def)
  have 3: "u_id other_user \<noteq> u_id example_user"
    by (simp add: other_user_def example_user_def)
  have 4: "distinct (map s_id (sightings example_database))"
    by (simp add: example_database_def)
  have 5: "7 \<notin> s_id ` set (sightings example_database)"
    by (simp add: example_database_def example_sighting_def)
  have 6: "get_current_user 200 other_bearer example_database = Inr other_user"
    by (simp add: get_current_user_def other_bearer_def example_database_def example_user_def
        other_user_def str_def)
  have 7: "s_id example_sighting = 1" by (simp add: example_sighting_def)
  show ?thesis
    using cross_account_not_found [OF 1 2 3 4 5 6, of example_environment] 7 by simp
qed

section \<open>Coordinates\<close>



section \<open>Accounts\<close>

lemma assign_profile_frame: "account_frame (assign_profile upd u) = account_frame u"
  by (simp add: assign_profile_def account_frame_def Let_def split: option.splits)

lemma assign_profile_kept: "account_kept u (assign_profile upd u)"
  by (cases "uu_email upd"; cases "uu_orcid_id upd")
     (auto simp: account_kept_def assign_profile_def account_frame_def Let_def)

lemma account_kept_refl: "account_kept u u"
  by (cases "u_orcid_id u") (simp_all add: account_kept_def)

lemma account_kept_trans: "account_kept u v \<Longrightarrow> account_kept v w \<Longrightarrow> account_kept u w"
  by (auto simp: account_kept_def)

lemma accounts_kept_nth:
  "accounts_kept db db' \<longleftrightarrow>
     length (users db) \<le> length (users db') \<and>
     (\<forall>i < length (users db). account_kept (users db ! i) (users db' ! i))"
  by (auto simp: accounts_kept_def list_all2_conv_all_nth)

lemma accounts_kept_refl: "accounts_kept db db"
  by (simp add: accounts_kept_nth account_kept_refl)

lemma accounts_kept_trans:
  assumes "accounts_kept a b" "accounts_kept b c"
  shows "accounts_kept a c"
  unfolding accounts_kept_nth
proof (intro conjI allI impI)
  show "length (users a) \<le> length (users c)"
    using assms by (simp add: accounts_kept_nth)
  fix i assume "i < length (users a)"
  then have "account_kept (users a ! i) (users b ! i)" "account_kept (users b ! i) (users c ! i)"
    using assms by (simp_all add: accounts_kept_nth)
  then show "account_kept (users a ! i) (users c ! i)" by (rule account_kept_trans)
qed

lemma register_users:
  "register h now user db = Inr (u, db') \<Longrightarrow> users db' = users db @ [u]"
  by (auto simp: register_def Let_def split: option.splits)

lemma update_user_profile_users:
  "update_user_profile upd cur db = Inr (u, db') \<Longrightarrow>
     users db' = map (\<lambda>x. if u_id x = u_id cur then assign_profile upd x else x) (users db)"
  by (auto simp: update_user_profile_def Let_def split: if_splits)

lemma create_sighting_users: "create_sighting now sc cur db = Inr (s, db') \<Longrightarrow> users db' = users db"
  by (auto simp: create_sighting_def Let_def)

lemma delete_sighting_users: "delete_sighting sid cur db = Inr (m, db') \<Longrightarrow> users db' = users db"
  by (auto simp: delete_sighting_def split: option.splits)

lemma api_users:
  "users (state_after env now db req) = users db
   \<or> (\<exists>u. users (state_after env now db req) = users db @ [u])
   \<or> (\<exists>upd (cur :: User). users (state_after env now db req)
          = map (\<lambda>x. if u_id x = u_id cur then assign_profile upd x else x) (users db))"
proof (cases req)
  case (POST_auth_register body)
  then show ?thesis
    by (auto simp: state_after_def split: sum.splits dest: register_users)
next
  case (PUT_users_me bearer body)
  show ?thesis
  proof (cases "get_current_user now bearer db")
    case (Inl e)
    with PUT_users_me show ?thesis by (simp add: state_after_def)
  next
    case (Inr cur)
    show ?thesis
    proof (cases "validate_UserUpdate (validate_email env) body")
      case (Inl e)
      with Inr PUT_users_me show ?thesis by (simp add: state_after_def)
    next
      case upd: (Inr upd)
      show ?thesis
      proof (cases "update_user_profile upd cur db")
        case (Inl e)
        with Inr upd PUT_users_me show ?thesis by (simp add: state_after_def)
      next
        case res: (Inr r)
        obtain u db' where r: "r = (u, db')" by (cases r)
        from res r have "users db'
            = map (\<lambda>x. if u_id x = u_id cur then assign_profile upd x else x) (users db)"
          by (simp add: update_user_profile_users)
        moreover have "state_after env now db req = db'"
          using PUT_users_me Inr upd res r by (simp add: state_after_def)
        ultimately show ?thesis by blast
      qed
    qed
  qed
next
  case (POST_sightings bearer body)
  then show ?thesis
    by (auto simp: state_after_def split: sum.splits dest: create_sighting_users)
next
  case (DELETE_sighting bearer sid)
  then show ?thesis
    by (auto simp: state_after_def split: sum.splits dest: delete_sighting_users)
qed (auto simp: state_after_def split: sum.splits prod.splits)

lemma accounts_kept_api: "accounts_kept db (state_after env now db req)"
proof -
  consider (same) "users (state_after env now db req) = users db"
    | (added) u where "users (state_after env now db req) = users db @ [u]"
    | (updated) upd and cur :: User where "users (state_after env now db req)
          = map (\<lambda>x. if u_id x = u_id cur then assign_profile upd x else x) (users db)"
    using api_users [of env now db req] by blast
  then show ?thesis
  proof cases
    case same
    then show ?thesis by (simp add: accounts_kept_nth account_kept_refl)
  next
    case added
    then show ?thesis by (simp add: accounts_kept_nth account_kept_refl nth_append)
  next
    case updated
    then show ?thesis
      by (simp add: accounts_kept_nth account_kept_refl assign_profile_kept)
  qed
qed

lemma accounts_kept_run: "accounts_kept db (run env db reqs)"
proof (induction reqs arbitrary: db)
  case Nil
  show ?case by (simp add: accounts_kept_refl)
next
  case (Cons r reqs)
  obtain now req where r: "r = (now, req)" by (cases r)
  have "accounts_kept db (state_after env now db req)" by (rule accounts_kept_api)
  moreover have "accounts_kept (state_after env now db req) (run env (state_after env now db req) reqs)"
    by (rule Cons.IH)
  ultimately show ?case unfolding r by (simp add: accounts_kept_trans)
qed

lemma accounts_kept_frames:
  assumes "accounts_kept db db'"
  shows "take (length (users db)) (map account_frame (users db')) = map account_frame (users db)"
  using assms
  by (auto simp: accounts_kept_nth account_kept_def list_eq_iff_nth_eq)

lemma put_frames:
  "map account_frame (users (state_after env now db (PUT_users_me bearer body)))
     = map account_frame (users db)"
  by (auto simp: state_after_def assign_profile_frame split: sum.splits
      dest!: update_user_profile_users)

lemma filter_others_map:
  assumes "\<And>x. u_id (f x) = u_id x"
  shows "filter (\<lambda>u. u_id u \<noteq> k) (map (\<lambda>x. if u_id x = k then f x else x) xs)
         = filter (\<lambda>u. u_id u \<noteq> k) xs"
  by (induction xs) (simp_all add: assms)

lemma assign_profile_id: "u_id (assign_profile upd x) = u_id x"
  using assign_profile_frame [of upd x] by (simp add: account_frame_def)

lemma put_others:
  assumes "get_current_user now bearer db = Inr current_user"
  shows "filter (\<lambda>u. u_id u \<noteq> u_id current_user)
           (users (state_after env now db (PUT_users_me bearer body)))
         = filter (\<lambda>u. u_id u \<noteq> u_id current_user) (users db)"
  using assms
  by (auto simp: state_after_def filter_others_map assign_profile_id split: sum.splits
      dest!: update_user_profile_users)

text \<open>
  C8. PUT /users/me changes at most the email and the \<open>orcid_id\<close> of the authenticated
  account: after the request every account has the id, username, hashed password and
  creation time it had before, and the accounts other than the caller's are unchanged
  altogether. No exposed operation deletes an account: after any sequence of requests
  every account is still in the table, at its place, with these four columns unchanged.
\<close>

theorem profile_update_frame:
  "map account_frame (users (state_after env now db (PUT_users_me bearer body)))
     = map account_frame (users db)
   \<and> (get_current_user now bearer db = Inr current_user
        \<longrightarrow> filter (\<lambda>u. u_id u \<noteq> u_id current_user)
              (users (state_after env now db (PUT_users_me bearer body)))
            = filter (\<lambda>u. u_id u \<noteq> u_id current_user) (users db))
   \<and> length (users db) \<le> length (users (run env db reqs))
   \<and> take (length (users db)) (map account_frame (users (run env db reqs)))
       = map account_frame (users db)"
proof -
  have "accounts_kept db (run env db reqs)" by (rule accounts_kept_run)
  then have "length (users db) \<le> length (users (run env db reqs))"
    and "take (length (users db)) (map account_frame (users (run env db reqs)))
           = map account_frame (users db)"
    by (simp add: accounts_kept_def, rule accounts_kept_frames)
  then show ?thesis by (simp add: put_frames put_others)
qed

lemma validate_UserUpdate_orcid:
  "validate_UserUpdate v body = Inr upd \<Longrightarrow> uu_orcid_id upd = ub_orcid_id body"
  by (auto simp: validate_UserUpdate_def split: option.splits)

lemma validate_UserUpdate_email:
  "validate_UserUpdate v body = Inr upd \<Longrightarrow> ub_email body = None \<Longrightarrow> uu_email upd = None"
  by (auto simp: validate_UserUpdate_def split: option.splits)

lemma assign_profile_orcid: "uu_orcid_id upd = None \<Longrightarrow> u_orcid_id (assign_profile upd u) = u_orcid_id u"
  by (simp add: assign_profile_def Let_def split: option.splits)

lemma assign_profile_email: "uu_email upd = None \<Longrightarrow> u_email (assign_profile upd u) = u_email u"
  by (simp add: assign_profile_def Let_def split: option.splits)

lemma map_column_update:
  assumes "\<And>x. col (f x) = col x"
  shows "map col (map (\<lambda>x. if u_id x = k then f x else x) xs) = map col xs"
  by (induction xs) (simp_all add: assms)

lemma put_orcid:
  assumes "ub_orcid_id body = None"
  shows "map u_orcid_id (users (state_after env now db (PUT_users_me bearer body)))
         = map u_orcid_id (users db)"
proof -
  have "\<And>upd. validate_UserUpdate (validate_email env) body = Inr upd
          \<Longrightarrow> map u_orcid_id (map (\<lambda>x. if u_id x = k then assign_profile upd x else x) (users db))
              = map u_orcid_id (users db)" for k
    using assms by (intro map_column_update assign_profile_orcid) (simp add: validate_UserUpdate_orcid)
  then show ?thesis
    by (auto simp: state_after_def split: sum.splits dest!: update_user_profile_users)
qed

lemma put_email:
  assumes "ub_email body = None"
  shows "map u_email (users (state_after env now db (PUT_users_me bearer body)))
         = map u_email (users db)"
proof -
  have "\<And>upd. validate_UserUpdate (validate_email env) body = Inr upd
          \<Longrightarrow> map u_email (map (\<lambda>x. if u_id x = k then assign_profile upd x else x) (users db))
              = map u_email (users db)" for k
    using assms by (intro map_column_update assign_profile_email) (simp add: validate_UserUpdate_email)
  then show ?thesis
    by (auto simp: state_after_def split: sum.splits dest!: update_user_profile_users)
qed

text \<open>
  C9. A PUT /users/me whose \<open>orcid_id\<close> is null or absent leaves every stored \<open>orcid_id\<close>
  unchanged, and one whose \<open>email\<close> is null or absent leaves every stored email unchanged.
  Consequently an account whose \<open>orcid_id\<close> is set still has it set after any sequence of
  requests: no operation writes \<open>None\<close> into that column.
\<close>

theorem orcid_never_reset:
  "(ub_orcid_id body = None
      \<longrightarrow> map u_orcid_id (users (state_after env now db (PUT_users_me bearer body)))
          = map u_orcid_id (users db))
   \<and> (ub_email body = None
      \<longrightarrow> map u_email (users (state_after env now db (PUT_users_me bearer body)))
          = map u_email (users db))
   \<and> (i < length (users db) \<and> u_orcid_id (users db ! i) \<noteq> None
      \<longrightarrow> i < length (users (run env db reqs))
          \<and> u_id (users (run env db reqs) ! i) = u_id (users db ! i)
          \<and> u_orcid_id (users (run env db reqs) ! i) \<noteq> None)"
proof (intro conjI impI)
  assume "ub_orcid_id body = None"
  then show "map u_orcid_id (users (state_after env now db (PUT_users_me bearer body)))
          = map u_orcid_id (users db)" by (rule put_orcid)
next
  assume "ub_email body = None"
  then show "map u_email (users (state_after env now db (PUT_users_me bearer body)))
          = map u_email (users db)" by (rule put_email)
next
  assume a: "i < length (users db) \<and> u_orcid_id (users db ! i) \<noteq> None"
  have k: "accounts_kept db (run env db reqs)" by (rule accounts_kept_run)
  with a show "i < length (users (run env db reqs))" by (simp add: accounts_kept_nth)
  from k a have "account_kept (users db ! i) (users (run env db reqs) ! i)"
    by (simp add: accounts_kept_nth)
  with a show "u_id (users (run env db reqs) ! i) = u_id (users db ! i)"
    and "u_orcid_id (users (run env db reqs) ! i) \<noteq> None"
    by (auto simp: account_kept_def account_frame_def)
qed

theorem profile_update_frame_witness:
  "map account_frame
     (users (state_after example_environment 200 example_database
               (PUT_users_me example_bearer example_update)))
     = [(1, str ''ada'', str ''#secret1'', 100), (2, str ''bob'', str ''#secret2'', 150)]
   \<and> filter (\<lambda>u. u_id u \<noteq> 1)
       (users (state_after example_environment 200 example_database
                 (PUT_users_me example_bearer example_update)))
     = [other_user]
   \<and> take 2 (map account_frame (users (run example_environment example_database example_requests)))
     = [(1, str ''ada'', str ''#secret1'', 100), (2, str ''bob'', str ''#secret2'', 150)]"
proof -
  have auth: "get_current_user 200 example_bearer example_database = Inr example_user"
    by (simp add: get_current_user_def example_defs str_def)
  have u: "users example_database = [example_user, other_user]"
    by (simp add: example_database_def)
  have f: "account_frame example_user = (1, str ''ada'', str ''#secret1'', 100)"
    "account_frame other_user = (2, str ''bob'', str ''#secret2'', 150)"
    by (simp_all add: account_frame_def example_user_def other_user_def)
  have i: "u_id example_user = 1" "u_id other_user = 2"
    by (simp_all add: example_user_def other_user_def)
  note t = profile_update_frame [where env = example_environment and now = 200
      and db = example_database and bearer = example_bearer and body = example_update
      and current_user = example_user and reqs = example_requests]
  from t [THEN conjunct1] t [THEN conjunct2, THEN conjunct1, rule_format, OF auth]
       t [THEN conjunct2, THEN conjunct2, THEN conjunct2]
  show ?thesis by (simp add: u f i numeral_2_eq_2)
qed

theorem orcid_never_reset_witness:
  "map u_orcid_id
     (users (state_after example_environment 200 example_database
               (PUT_users_me example_bearer example_update)))
     = [Some (str ''0000-0002-1825-0097''), None]
   \<and> map u_email
     (users (state_after example_environment 200 example_database
               (PUT_users_me example_bearer \<lparr>ub_email = None, ub_orcid_id = Some []\<rparr>)))
     = [str ''ada@wesleyan.edu'', str ''bob@wesleyan.edu'']
   \<and> u_orcid_id (users (run example_environment example_database example_requests) ! 0) \<noteq> None"
proof -
  have a: "ub_orcid_id example_update = None" by (simp add: example_update_def)
  have b: "ub_email \<lparr>ub_email = None, ub_orcid_id = Some []\<rparr> = None" by simp
  have c: "0 < length (users example_database) \<and> u_orcid_id (users example_database ! 0) \<noteq> None"
    by (simp add: example_database_def example_user_def)
  have u: "map u_orcid_id (users example_database) = [Some (str ''0000-0002-1825-0097''), None]"
     "map u_email (users example_database) = [str ''ada@wesleyan.edu'', str ''bob@wesleyan.edu'']"
    by (simp_all add: example_database_def example_user_def other_user_def)
  from orcid_never_reset [where body = example_update and env = example_environment
         and now = 200 and db = example_database and bearer = example_bearer,
         THEN conjunct1, rule_format, OF a]
       orcid_never_reset [where body = "\<lparr>ub_email = None, ub_orcid_id = Some []\<rparr>"
         and env = example_environment and now = 200 and db = example_database
         and bearer = example_bearer, THEN conjunct2, THEN conjunct1, rule_format, OF b]
       orcid_never_reset [where db = example_database and i = 0 and env = example_environment
         and reqs = example_requests, THEN conjunct2, THEN conjunct2, rule_format, OF c]
  show ?thesis by (simp add: u)
qed

text \<open>The update of the witnesses does change the stored email, and the sequence does add an account.\<close>

lemma example_update_effect:
  "map u_email
     (users (state_after example_environment 200 example_database
               (PUT_users_me example_bearer example_update)))
     = [str ''ada@conncoll.edu'', str ''bob@wesleyan.edu'']
   \<and> map u_username (users (run example_environment example_database example_requests))
     = [str ''ada'', str ''bob'', str ''carl'']
   \<and> map u_orcid_id (users (run example_environment example_database example_requests))
     = [Some [], None, None]"
  by (simp add: example_requests_def example_update_def state_after_def get_current_user_def
      validate_UserUpdate_def validate_UserCreate_def update_user_profile_def assign_profile_def
      register_def delete_sighting_def example_defs str_def Let_def)

section \<open>The outbound request\<close>

lemma identify_bird_calls:
  "snd (identify_bird client image_data)
     = [generate_content_arguments image_data]"
  by (simp add: identify_bird_def Let_def split: sum.splits option.splits)

text \<open>
  C10. Whatever the image, \<open>identify_bird\<close> makes exactly one call to the model, and the
  image part of that call declares the MIME type \<open>image/jpeg\<close>. The endpoint accepts every
  declared content type that starts with \<open>image/\<close> and then makes this same call: the
  declared content type does not reach it.
\<close>

theorem hardcoded_mime_type:
  assumes "startswith content_type (str ''image/'')"
  shows "snd (identify_bird client image_data)
           = [\<lparr>model = str ''gemini-2.5-flash'',
               contents = [\<lparr>role = str ''user'',
                            parts = [from_bytes image_data (str ''image/jpeg''),
                                     from_text prompt]\<rparr>]\<rparr>]
         \<and> snd (identify_bird_endpoint response client (Some content_type) image_data)
           = snd (identify_bird client image_data)"
proof -
  obtain r calls where i: "identify_bird client image_data = (r, calls)"
    by (cases "identify_bird client image_data")
  then have "snd (identify_bird_endpoint response client (Some content_type) image_data) = calls"
    using assms by (cases r) (simp_all add: identify_bird_endpoint_def)
  with i show ?thesis using identify_bird_calls [of client image_data]
    by (simp add: generate_content_arguments_def)
qed

theorem hardcoded_mime_type_witness:
  "snd (identify_bird_endpoint (BirdIdentificationResponse example_environment)
          (generate_content example_environment 200) (Some (str ''image/png'')) [137, 80, 78, 71])
     = [\<lparr>model = str ''gemini-2.5-flash'',
         contents = [\<lparr>role = str ''user'',
                      parts = [from_bytes [137, 80, 78, 71] (str ''image/jpeg''),
                               from_text prompt]\<rparr>]\<rparr>]"
proof -
  have p: "startswith (str ''image/png'') (str ''image/'')"
    by (simp add: startswith_def str_def)
  show ?thesis
    using hardcoded_mime_type [OF p, of "generate_content example_environment 200"
        "[137, 80, 78, 71]" "BirdIdentificationResponse example_environment"]
    by simp
qed

lemma not_an_image_rejected:
  "\<not> startswith content_type (str ''image/'') \<Longrightarrow>
     identify_bird_endpoint response client (Some content_type) image_data
       = (Inl (HTTPException 400 (str ''Please upload an image file'') []), [])"
  by (simp add: identify_bird_endpoint_def)

end
